theory Spec2Isabelle
  imports Main "HOL-Library.Word" "HOL-Library.AList"
begin

unbundle bit_operations_syntax

section \<open>Python text\<close>

text \<open>
  A Python \<open>str\<close> is a sequence of Unicode code points; it is modelled as a list of
  natural numbers, one per code point. \<open>ascii\<close> reads an ASCII literal.
\<close>

type_synonym ustr = "nat list"

definition ascii :: "string \<Rightarrow> ustr" where
  "ascii s = map of_char s"

text \<open>
  \<open>str.isspace\<close>, \<open>str.split()\<close>, \<open>str.strip()\<close> and the regular expression class
  \<open>\s\<close> of a \<open>str\<close> pattern all use the same test (CPython's \<open>Py_UNICODE_ISSPACE\<close>),
  which holds of exactly these code points.
\<close>

definition py_isspace :: "nat \<Rightarrow> bool" where
  "py_isspace c \<longleftrightarrow>
     (9 \<le> c \<and> c \<le> 13) \<or> (28 \<le> c \<and> c \<le> 32) \<or> c = 133 \<or> c = 160 \<or> c = 5760 \<or>
     (8192 \<le> c \<and> c \<le> 8202) \<or> c = 8232 \<or> c = 8233 \<or> c = 8239 \<or> c = 8287 \<or>
     c = 12288"

text \<open>
  \<open>text.split()\<close> without a separator: the maximal runs of non-whitespace characters, in
  order; \<open>w\<close> is the run being read.
\<close>

fun split_ws :: "ustr \<Rightarrow> ustr \<Rightarrow> ustr list" where
  "split_ws w [] = (if w = [] then [] else [w])"
| "split_ws w (c # cs) =
     (if py_isspace c then (if w = [] then split_ws [] cs else w # split_ws [] cs)
      else split_ws (w @ [c]) cs)"

definition py_split :: "ustr \<Rightarrow> ustr list" where
  "py_split s = split_ws [] s"

text \<open>\<open>sep.join(pieces)\<close>.\<close>

fun py_join :: "ustr \<Rightarrow> ustr list \<Rightarrow> ustr" where
  "py_join sep [] = []"
| "py_join sep [w] = w"
| "py_join sep (w # v # ws) = w @ sep @ py_join sep (v # ws)"

text \<open>\<open>text.strip()\<close>: leading and trailing whitespace removed.\<close>

definition py_strip :: "ustr \<Rightarrow> ustr" where
  "py_strip s = rev (dropWhile py_isspace (rev (dropWhile py_isspace s)))"

text \<open>
  \<open>text.split(d)\<close> for a one-character separator \<open>d\<close>: the pieces between the
  occurrences of \<open>d\<close>, empty pieces included; the result is never empty.
\<close>

fun split_on :: "nat \<Rightarrow> ustr \<Rightarrow> ustr list" where
  "split_on d [] = [[]]"
| "split_on d (c # cs) =
     (if c = d then [] # split_on d cs
      else (let ps = split_on d cs in (c # hd ps) # tl ps))"

text \<open>
  The Unicode character database behind \<open>str.lower\<close>, \<open>unicodedata.normalize('NFD', _)\<close>,
  \<open>unicodedata.category\<close>, \<open>str.isalnum\<close> and the matching of a literal character of a
  pattern under \<open>re.IGNORECASE\<close> (\<open>ignorecase_eq literal c\<close>) belongs to the Python runtime,
  not to the scripts. The scripts are modelled over any such database \<open>U\<close>; general theorems hold
  for every \<open>U\<close>. Lower-casing and canonical decomposition act on whole strings (final
  sigma, reordering of combining marks), so they are functions on strings.
\<close>

record unicode_db =
  str_lower :: "ustr \<Rightarrow> ustr"
  nfd :: "ustr \<Rightarrow> ustr"
  category_Mn :: "nat \<Rightarrow> bool"
  isalnum :: "nat \<Rightarrow> bool"
  ignorecase_eq :: "nat \<Rightarrow> nat \<Rightarrow> bool"

text \<open>The class \<open>\w\<close> of a \<open>str\<close> pattern: alphanumeric (as \<open>str.isalnum\<close>) or underscore.\<close>

definition re_word :: "unicode_db \<Rightarrow> nat \<Rightarrow> bool" where
  "re_word U c \<longleftrightarrow> isalnum U c \<or> c = 95"

text \<open>
  For evaluation on concrete text, the database restricted to the blocks Basic Latin and
  Latin-1 Supplement (code points below 256), where lower-casing and decomposition act
  character by character, together with the combining diacritical marks U+0300..U+036F
  that decomposition produces. Code points outside these blocks are left alone: the
  concrete inputs below stay inside them.
\<close>

definition latin1_lower_char :: "nat \<Rightarrow> nat" where
  "latin1_lower_char c =
     (if (65 \<le> c \<and> c \<le> 90) \<or> (192 \<le> c \<and> c \<le> 222 \<and> c \<noteq> 215) then c + 32 else c)"

definition latin1_decomposition :: "(nat \<times> nat list) list" where
  "latin1_decomposition =
    [(192, [65, 768]), (193, [65, 769]), (194, [65, 770]), (195, [65, 771]), (196, [65, 776]),
     (197, [65, 778]), (199, [67, 807]), (200, [69, 768]), (201, [69, 769]), (202, [69, 770]),
     (203, [69, 776]), (204, [73, 768]), (205, [73, 769]), (206, [73, 770]), (207, [73, 776]),
     (209, [78, 771]), (210, [79, 768]), (211, [79, 769]), (212, [79, 770]), (213, [79, 771]),
     (214, [79, 776]), (217, [85, 768]), (218, [85, 769]), (219, [85, 770]), (220, [85, 776]),
     (221, [89, 769]), (224, [97, 768]), (225, [97, 769]), (226, [97, 770]), (227, [97, 771]),
     (228, [97, 776]), (229, [97, 778]), (231, [99, 807]), (232, [101, 768]), (233, [101, 769]),
     (234, [101, 770]), (235, [101, 776]), (236, [105, 768]), (237, [105, 769]),
     (238, [105, 770]), (239, [105, 776]), (241, [110, 771]), (242, [111, 768]),
     (243, [111, 769]), (244, [111, 770]), (245, [111, 771]), (246, [111, 776]),
     (249, [117, 768]), (250, [117, 769]), (251, [117, 770]), (252, [117, 776]),
     (253, [121, 769]), (255, [121, 776])]"

definition latin1_nfd_char :: "nat \<Rightarrow> nat list" where
  "latin1_nfd_char c = (case map_of latin1_decomposition c of None \<Rightarrow> [c] | Some d \<Rightarrow> d)"

definition latin1_isalnum :: "nat \<Rightarrow> bool" where
  "latin1_isalnum c \<longleftrightarrow>
     (48 \<le> c \<and> c \<le> 57) \<or> (65 \<le> c \<and> c \<le> 90) \<or> (97 \<le> c \<and> c \<le> 122) \<or>
     c = 170 \<or> c = 178 \<or> c = 179 \<or> c = 181 \<or> c = 185 \<or> c = 186 \<or>
     (188 \<le> c \<and> c \<le> 190) \<or> (192 \<le> c \<and> c \<le> 214) \<or> (216 \<le> c \<and> c \<le> 246) \<or>
     (248 \<le> c \<and> c \<le> 255)"

definition latin1_db :: unicode_db where
  "latin1_db =
     \<lparr> str_lower = map latin1_lower_char,
       nfd = (\<lambda>s. concat (map latin1_nfd_char s)),
       category_Mn = (\<lambda>c. 768 \<le> c \<and> c \<le> 879),
       isalnum = latin1_isalnum,
       ignorecase_eq = (\<lambda>literal c. latin1_lower_char c = latin1_lower_char literal) \<rparr>"

section \<open>Text normalization\<close>

text \<open>
  A cell of a table read by \<open>pandas.read_csv\<close> is either missing (\<open>NaN\<close>, here \<open>None\<close>)
  or a value; \<open>Some s\<close> is a value whose \<open>str()\<close> is \<open>s\<close>.
\<close>

type_synonym cell = "ustr option"

definition is_a_z :: "nat \<Rightarrow> bool" where
  "is_a_z c \<longleftrightarrow> 97 \<le> c \<and> c \<le> 122"

definition is_0_9 :: "nat \<Rightarrow> bool" where
  "is_0_9 c \<longleftrightarrow> 48 \<le> c \<and> c \<le> 57"

text \<open>
  \<open>charts_cleaning_2.normalize_text\<close>: lower-case, delete every character outside
  \<open>[a-z0-9\s]\<close>, then \<open>' '.join(text.split())\<close>.
\<close>

definition normalize_text_charts2 :: "unicode_db \<Rightarrow> cell \<Rightarrow> ustr" where
  "normalize_text_charts2 U text =
     (case text of
        None \<Rightarrow> []
      | Some s \<Rightarrow>
          (let t1 = str_lower U s;
               t2 = filter (\<lambda>c. is_a_z c \<or> is_0_9 c \<or> py_isspace c) t1
           in py_join [32] (py_split t2)))"

text \<open>
  \<open>tracks_cleaning_2.normalize_text\<close>: lower-case, decompose (NFD), delete the characters
  of category \<open>Mn\<close>, delete every character outside \<open>[\w\s]\<close>, then
  \<open>' '.join(text.split())\<close> and \<open>strip()\<close>.
\<close>

definition normalize_text_tracks2 :: "unicode_db \<Rightarrow> cell \<Rightarrow> ustr" where
  "normalize_text_tracks2 U text =
     (case text of
        None \<Rightarrow> []
      | Some s \<Rightarrow>
          (let t1 = str_lower U s;
               t2 = nfd U t1;
               t3 = filter (\<lambda>c. \<not> category_Mn U c) t2;
               t4 = filter (\<lambda>c. re_word U c \<or> py_isspace c) t3;
               t5 = py_join [32] (py_split t4)
           in py_strip t5))"

text \<open>The character set the specification promises: \<open>[a-z0-9 ]\<close>.\<close>

definition canonical_char :: "nat \<Rightarrow> bool" where
  "canonical_char c \<longleftrightarrow> is_a_z c \<or> is_0_9 c \<or> c = 32"

section \<open>MD5 and key generation\<close>

text \<open>
  \<open>text.encode('utf-8')\<close>. Text decoded from a CSV file holds Unicode scalar values only
  (no surrogate code points, which Python refuses to encode).
\<close>

definition utf8_char :: "nat \<Rightarrow> nat list" where
  "utf8_char c =
     (if c < 128 then [c]
      else if c < 2048 then [192 + c div 64, 128 + c mod 64]
      else if c < 65536 then [224 + c div 4096, 128 + c div 64 mod 64, 128 + c mod 64]
      else [240 + c div 262144, 128 + c div 4096 mod 64, 128 + c div 64 mod 64, 128 + c mod 64])"

definition encode_utf8 :: "ustr \<Rightarrow> nat list" where
  "encode_utf8 s = concat (map utf8_char s)"

text \<open>
  \<open>hashlib.md5\<close> is the MD5 message digest of RFC 1321, on a list of bytes: the message
  is padded to a multiple of 64 bytes, read as little-endian 32-bit words, and each block
  of 16 words goes through 64 rounds. Additions wrap around modulo \<open>2^32\<close>.
\<close>

type_synonym w32 = "32 word"

definition md5_K :: "w32 list" where
  "md5_K =
    [0xd76aa478, 0xe8c7b756, 0x242070db, 0xc1bdceee, 0xf57c0faf, 0x4787c62a, 0xa8304613, 0xfd469501,
     0x698098d8, 0x8b44f7af, 0xffff5bb1, 0x895cd7be, 0x6b901122, 0xfd987193, 0xa679438e, 0x49b40821,
     0xf61e2562, 0xc040b340, 0x265e5a51, 0xe9b6c7aa, 0xd62f105d, 0x02441453, 0xd8a1e681, 0xe7d3fbc8,
     0x21e1cde6, 0xc33707d6, 0xf4d50d87, 0x455a14ed, 0xa9e3e905, 0xfcefa3f8, 0x676f02d9, 0x8d2a4c8a,
     0xfffa3942, 0x8771f681, 0x6d9d6122, 0xfde5380c, 0xa4beea44, 0x4bdecfa9, 0xf6bb4b60, 0xbebfbc70,
     0x289b7ec6, 0xeaa127fa, 0xd4ef3085, 0x04881d05, 0xd9d4d039, 0xe6db99e5, 0x1fa27cf8, 0xc4ac5665,
     0xf4292244, 0x432aff97, 0xab9423a7, 0xfc93a039, 0x655b59c3, 0x8f0ccc92, 0xffeff47d, 0x85845dd1,
     0x6fa87e4f, 0xfe2ce6e0, 0xa3014314, 0x4e0811a1, 0xf7537e82, 0xbd3af235, 0x2ad7d2bb, 0xeb86d391]"

definition md5_S :: "nat list" where
  "md5_S =
    [7, 12, 17, 22, 7, 12, 17, 22, 7, 12, 17, 22, 7, 12, 17, 22,
     5, 9, 14, 20, 5, 9, 14, 20, 5, 9, 14, 20, 5, 9, 14, 20,
     4, 11, 16, 23, 4, 11, 16, 23, 4, 11, 16, 23, 4, 11, 16, 23,
     6, 10, 15, 21, 6, 10, 15, 21, 6, 10, 15, 21, 6, 10, 15, 21]"

text \<open>The \<open>n\<close> low bytes of \<open>x\<close>, least significant first.\<close>

fun le_bytes :: "nat \<Rightarrow> nat \<Rightarrow> nat list" where
  "le_bytes 0 x = []"
| "le_bytes (Suc n) x = (x mod 256) # le_bytes n (x div 256)"

text \<open>
  Padding: the byte \<open>0x80\<close>, zero bytes up to 56 modulo 64, then the length of the
  message in bits as eight little-endian bytes.
\<close>

definition md5_pad :: "nat list \<Rightarrow> nat list" where
  "md5_pad m =
     m @ [128] @ replicate ((119 - length m mod 64) mod 64) 0 @ le_bytes 8 (8 * length m)"

fun le_words :: "nat list \<Rightarrow> w32 list" where
  "le_words (b0 # b1 # b2 # b3 # bs) =
     of_nat (b0 + 256 * b1 + 65536 * b2 + 16777216 * b3) # le_words bs"
| "le_words _ = []"

fun blocks16 :: "'a list \<Rightarrow> 'a list list" where
  "blocks16 (x0 # x1 # x2 # x3 # x4 # x5 # x6 # x7 # x8 # x9 # x10 # x11 # x12 # x13 # x14 # x15 # xs) =
     [x0, x1, x2, x3, x4, x5, x6, x7, x8, x9, x10, x11, x12, x13, x14, x15] # blocks16 xs"
| "blocks16 _ = []"

definition rotl32 :: "nat \<Rightarrow> w32 \<Rightarrow> w32" where
  "rotl32 s x = push_bit s x OR drop_bit (32 - s) x"

definition md5_f :: "nat \<Rightarrow> w32 \<Rightarrow> w32 \<Rightarrow> w32 \<Rightarrow> w32" where
  "md5_f i b c d =
     (if i < 16 then (b AND c) OR (NOT b AND d)
      else if i < 32 then (d AND b) OR (NOT d AND c)
      else if i < 48 then b XOR c XOR d
      else c XOR (b OR NOT d))"

definition md5_g :: "nat \<Rightarrow> nat" where
  "md5_g i =
     (if i < 16 then i
      else if i < 32 then (5 * i + 1) mod 16
      else if i < 48 then (3 * i + 5) mod 16
      else (7 * i) mod 16)"

fun md5_round :: "w32 list \<Rightarrow> w32 \<times> w32 \<times> w32 \<times> w32 \<Rightarrow> nat \<Rightarrow> w32 \<times> w32 \<times> w32 \<times> w32" where
  "md5_round M (a, b, c, d) i =
     (let f = md5_f i b c d + a + md5_K ! i + M ! md5_g i
      in (d, b + rotl32 (md5_S ! i) f, b, c))"

fun md5_block :: "w32 \<times> w32 \<times> w32 \<times> w32 \<Rightarrow> w32 list \<Rightarrow> w32 \<times> w32 \<times> w32 \<times> w32" where
  "md5_block (a0, b0, c0, d0) M =
     (case foldl (md5_round M) (a0, b0, c0, d0) [0..<64] of
        (a, b, c, d) \<Rightarrow> (a0 + a, b0 + b, c0 + c, d0 + d))"

definition md5 :: "nat list \<Rightarrow> nat list" where
  "md5 m =
     (case foldl md5_block (0x67452301, 0xefcdab89, 0x98badcfe, 0x10325476)
             (blocks16 (le_words (md5_pad m))) of
        (a, b, c, d) \<Rightarrow> concat (map (\<lambda>w. le_bytes 4 (unat w)) [a, b, c, d]))"

definition hex_digit :: "nat \<Rightarrow> nat" where
  "hex_digit n = (if n < 10 then 48 + n else 87 + n)"

text \<open>\<open>hashlib.md5(data).hexdigest()\<close>: two lowercase hexadecimal digits per byte.\<close>

definition md5_hexdigest :: "nat list \<Rightarrow> ustr" where
  "md5_hexdigest m = concat (map (\<lambda>b. [hex_digit (b div 16), hex_digit (b mod 16)]) (md5 m))"

text \<open>
  \<open>charts_cleaning_2.generate_song_id\<close> and \<open>tracks_cleaning_2.generate_song_id\<close>: the MD5
  hex digest of \<open>normalized_song|normalized_artist\<close>, each with the \<open>normalize_text\<close> of its
  own script.
\<close>

definition generate_song_id_charts2 :: "unicode_db \<Rightarrow> cell \<Rightarrow> cell \<Rightarrow> ustr" where
  "generate_song_id_charts2 U song artist =
     (let normalized_song = normalize_text_charts2 U song;
          normalized_artist = normalize_text_charts2 U artist;
          combined = normalized_song @ [124] @ normalized_artist
      in md5_hexdigest (encode_utf8 combined))"

definition generate_song_id_tracks2 :: "unicode_db \<Rightarrow> cell \<Rightarrow> cell \<Rightarrow> ustr" where
  "generate_song_id_tracks2 U song artist =
     (let normalized_song = normalize_text_tracks2 U song;
          normalized_artist = normalize_text_tracks2 U artist;
          combined = normalized_song @ [124] @ normalized_artist
      in md5_hexdigest (encode_utf8 combined))"

text \<open>
  \<open>charts_cleaning_1.generate_song_id\<close>: no key (\<open>None\<close>) when the song or the artist is
  missing; otherwise the first ten hex digits of the MD5 of
  \<open>str(song).lower().strip() + '_' + str(artist).lower().strip()\<close>.
\<close>

definition generate_song_id_charts1 :: "unicode_db \<Rightarrow> cell \<Rightarrow> cell \<Rightarrow> cell" where
  "generate_song_id_charts1 U song artist =
     (case (song, artist) of
        (Some s, Some a) \<Rightarrow>
          (let normalized = py_strip (str_lower U s) @ [95] @ py_strip (str_lower U a)
           in Some (take 10 (md5_hexdigest (encode_utf8 normalized))))
      | _ \<Rightarrow> None)"

section \<open>Example texts\<close>

text \<open>
  The three spellings of claim C5: \<open>"Ed Sheeran"\<close>, \<open>"  ED   SHEERAN  "\<close> and
  \<open>"\<e>d sh\<e>eran"\<close> with U+00E9 and U+00EB.
\<close>

definition ed_plain :: ustr where
  "ed_plain = ascii ''Ed Sheeran''"

definition ed_shouted :: ustr where
  "ed_shouted = ascii ''  ED   SHEERAN  ''"

definition ed_accented :: ustr where
  "ed_accented = [233, 100, 32, 115, 104, 235, 101, 114, 97, 110]"

section \<open>Artists: splitting a multi-artist field (\<open>artists_cleaning_1\<close>)\<close>

text \<open>
  The comprehension \<open>[artist.strip() for artist in str(artists_str).split(',')]\<close>, used
  in \<open>process_csv_files\<close> for both tables and in \<open>get_artist_ids\<close>.
\<close>

definition split_artists :: "ustr \<Rightarrow> ustr list" where
  "split_artists artists_str = map py_strip (split_on 44 artists_str)"

text \<open>\<open>generate_artist_id\<close>: MD5 hex digest of \<open>artist_name.strip().lower()\<close>.\<close>

definition generate_artist_id :: "unicode_db \<Rightarrow> ustr \<Rightarrow> ustr" where
  "generate_artist_id U artist_name =
     (let normalized_name = str_lower U (py_strip artist_name)
      in md5_hexdigest (encode_utf8 normalized_name))"

text \<open>
  The artists of a column: every piece of every present cell (\<open>dropna()\<close>); these are
  collected in a set.
\<close>

definition column_artists :: "cell list \<Rightarrow> ustr set" where
  "column_artists col = (\<Union>c \<in> set col. case c of None \<Rightarrow> {} | Some s \<Rightarrow> set (split_artists s))"

text \<open>
  The dictionary \<open>artist_to_id\<close>: an identifier for each artist of the two columns
  (\<open>tracks_df['artists']\<close> and \<open>charts_df['artist']\<close>).
\<close>

definition artist_to_id :: "unicode_db \<Rightarrow> cell list \<Rightarrow> cell list \<Rightarrow> ustr \<rightharpoonup> ustr" where
  "artist_to_id U tracks_col charts_col =
     (\<lambda>artist. if artist \<in> column_artists tracks_col \<union> column_artists charts_col
        then Some (generate_artist_id U artist) else None)"

text \<open>
  \<open>get_artist_ids\<close>: no value for a missing cell; otherwise the identifiers of the pieces
  found in the dictionary, joined by commas, or no value when there is none.
\<close>

definition get_artist_ids :: "(ustr \<rightharpoonup> ustr) \<Rightarrow> cell \<Rightarrow> cell" where
  "get_artist_ids to_id artists_str =
     (case artists_str of
        None \<Rightarrow> None
      | Some s \<Rightarrow>
          (let artists = split_artists s;
               ids = map (\<lambda>artist. the (to_id artist)) (filter (\<lambda>artist. to_id artist \<noteq> None) artists)
           in if ids = [] then None else Some (py_join [44] ids)))"

section \<open>Charts: trailing \<open>.0\<close> (\<open>charts_cleaning_3\<close>)\<close>

text \<open>\<open>line.rstrip('\n\r')\<close>, \<open>line.endswith(suffix)\<close>.\<close>

definition rstrip_newlines :: "ustr \<Rightarrow> ustr" where
  "rstrip_newlines line = rev (dropWhile (\<lambda>c. c = 10 \<or> c = 13) (rev line))"

definition py_endswith :: "ustr \<Rightarrow> ustr \<Rightarrow> bool" where
  "py_endswith s suffix \<longleftrightarrow>
     length suffix \<le> length s \<and> drop (length s - length suffix) s = suffix"

text \<open>The body of the loop for a line after the first; \<open>line[:-2]\<close> drops two characters.\<close>

definition process_line :: "ustr \<Rightarrow> ustr" where
  "process_line line =
     (let l = rstrip_newlines line;
          l' = (if py_endswith l [46, 48] then take (length l - 2) l else l)
      in l' @ [10])"

text \<open>
  The script, from the list returned by \<open>readlines()\<close> to the list given to
  \<open>writelines\<close>: the first line is kept, every other line is processed.
\<close>

fun processed_lines :: "ustr list \<Rightarrow> ustr list" where
  "processed_lines [] = []"
| "processed_lines (header # lines) = header # map process_line lines"

section \<open>Tables\<close>

text \<open>
  A \<open>pandas.DataFrame\<close> read from a CSV file: the column names, in order, and the rows,
  each holding one cell per column. A cell is missing (\<open>NaN\<close>, here \<open>None\<close>) or holds a
  value. \<open>read_csv\<close> makes the column names distinct.
\<close>

record 'a dataframe =
  columns :: "string list"
  rows :: "'a option list list"

definition wf_frame :: "'a dataframe \<Rightarrow> bool" where
  "wf_frame df \<longleftrightarrow>
     distinct (columns df) \<and> list_all (\<lambda>r. length r = length (columns df)) (rows df)"

text \<open>
  \<open>row[c]\<close>, for a row with the labels \<open>cs\<close>. The scripts read a column only after
  checking that it exists, or fail on the whole column before any row is read; a label
  that is not there reads as missing.
\<close>

fun get_cell :: "string list \<Rightarrow> 'a option list \<Rightarrow> string \<Rightarrow> 'a option" where
  "get_cell (k # ks) (v # vs) c = (if k = c then v else get_cell ks vs c)"
| "get_cell _ _ c = None"

text \<open>\<open>row[c] = x\<close> for a label \<open>c\<close> of the row.\<close>

fun put_cell :: "string list \<Rightarrow> 'a option list \<Rightarrow> string \<Rightarrow> 'a option \<Rightarrow> 'a option list" where
  "put_cell (k # ks) (v # vs) c x = (if k = c then x # vs else v # put_cell ks vs c x)"
| "put_cell _ vs c x = vs"

text \<open>\<open>df[c]\<close>: the cells of a column.\<close>

definition column :: "string \<Rightarrow> 'a dataframe \<Rightarrow> 'a option list" where
  "column c df = map (\<lambda>r. get_cell (columns df) r c) (rows df)"

section \<open>Column types of pandas\<close>

text \<open>
  \<open>read_csv\<close> gives every column a type. In a column of text the cells are \<open>str\<close>
  objects or missing. The other columns hold numbers or booleans: a column in which every
  cell reads as a number, for instance, and a column in which every cell is missing
  (it holds floats). Which columns are columns of text is decided by \<open>read_csv\<close>, and is
  part of the table read; where a script depends on it, the kinds of the columns are
  given with the table, as a function from the column names.
\<close>

datatype column_kind = TextColumn | OtherColumn

text \<open>
  pandas converts the values of a column when an operation changes the type of the
  column: an integer column that receives a missing value becomes a column of floats, and
  25 is then written \<open>25.0\<close>; an integer above \<open>2^53\<close> is rounded on the way. A missing
  cell stays missing and a value stays a value. These conversions belong to pandas, not
  to the scripts; they are a parameter of the model, one function on values for each
  place where the scripts let pandas change a column type:

    \<^item> \<open>concat_cast tracks_df popularity_df c\<close>: what \<open>pd.concat([tracks_df, new_rows_df])\<close>
      does to a value of the column \<open>c\<close> of \<open>tracks_df\<close>;
    \<^item> \<open>append_cast tracks_df popularity_df pop_row c\<close>: what happens to a value of the
      popularity row \<open>pop_row\<close> on its way into the column \<open>c\<close> of the merged table
      (\<open>iterrows\<close>, the assignment to the new row, \<open>pd.DataFrame(new_rows)\<close>, \<open>pd.concat\<close>);
    \<^item> \<open>join_cast df_base df_todo c\<close>: what \<open>join(..., how="left")\<close> does to a value of the
      column \<open>c\<close> of \<open>df_todo\<close>, whose type changes when a base row has no match.
\<close>

record 'a pandas_casts =
  concat_cast :: "'a dataframe \<Rightarrow> 'a dataframe \<Rightarrow> string \<Rightarrow> 'a \<Rightarrow> 'a"
  append_cast :: "'a dataframe \<Rightarrow> 'a dataframe \<Rightarrow> 'a option list \<Rightarrow> string \<Rightarrow> 'a \<Rightarrow> 'a"
  join_cast :: "'a dataframe \<Rightarrow> 'a dataframe \<Rightarrow> string \<Rightarrow> 'a \<Rightarrow> 'a"

text \<open>A conversion applied to the cells of a row with the labels \<open>cs\<close>.\<close>

fun cast_row :: "(string \<Rightarrow> 'a \<Rightarrow> 'a) \<Rightarrow> string list \<Rightarrow> 'a option list \<Rightarrow> 'a option list" where
  "cast_row cast (c # cs) (v # vs) = map_option (cast c) v # cast_row cast cs vs"
| "cast_row cast _ vs = vs"

section \<open>Appending the popularity table (\<open>merge_tracks_and_popularity\<close>)\<close>

definition create_column_mapping :: "(string \<times> string) list" where
  "create_column_mapping =
     [(''track_id'', ''id''),
      (''track_name'', ''name''),
      (''artist_name'', ''artists''),
      (''acousticness'', ''acousticness''),
      (''danceability'', ''danceability''),
      (''duration_ms'', ''duration_ms''),
      (''energy'', ''energy''),
      (''instrumentalness'', ''instrumentalness''),
      (''key'', ''key''),
      (''liveness'', ''liveness''),
      (''loudness'', ''loudness''),
      (''mode'', ''mode''),
      (''speechiness'', ''speechiness''),
      (''tempo'', ''tempo''),
      (''time_signature'', ''time_signature''),
      (''valence'', ''valence''),
      (''year'', ''year'')]"

text \<open>
  The body of the loop over the popularity rows: a row of missing values with the
  tracks columns, then one assignment per pair of the mapping whose two columns exist.
\<close>

definition map_row ::
  "(string \<times> string) list \<Rightarrow> string list \<Rightarrow> string list \<Rightarrow> 'a option list \<Rightarrow> 'a option list \<Rightarrow> 'a option list" where
  "map_row column_mapping tracks_columns popularity_columns pop_row new_row =
     foldl (\<lambda>row (pop_col, track_col).
              if pop_col \<in> set popularity_columns \<and> track_col \<in> set tracks_columns
              then put_cell tracks_columns row track_col (get_cell popularity_columns pop_row pop_col)
              else row)
       new_row column_mapping"

definition new_row :: "string list \<Rightarrow> string list \<Rightarrow> 'a option list \<Rightarrow> 'a option list" where
  "new_row tracks_columns popularity_columns pop_row =
     map_row create_column_mapping tracks_columns popularity_columns pop_row
       (replicate (length tracks_columns) None)"


text \<open>
  What the mapping says about a tracks column: the popularity column it is filled
  from, if there is one in the mapping and in the popularity table.
\<close>

definition source_column :: "string list \<Rightarrow> string \<Rightarrow> string option" where
  "source_column popularity_columns track_col =
     (case map_of (map prod.swap create_column_mapping) track_col of
        None \<Rightarrow> None
      | Some pop_col \<Rightarrow> if pop_col \<in> set popularity_columns then Some pop_col else None)"

text \<open>
  The conversions of pandas on the example tables below. In the tracks table a column of
  integers that no column of the popularity table fills becomes a column of floats as
  soon as one row is appended, because the appended rows are missing there; an integer
  below \<open>10^15\<close> is then written with \<open>.0\<close> after its digits. The text columns, and an
  integer column filled with integers, keep their type. This is the behaviour of pandas on
  tables of text and of such integers without missing values in the columns that the
  mapping fills, and is used on the examples only.
\<close>

definition small_integer :: "cell \<Rightarrow> bool" where
  "small_integer c \<longleftrightarrow>
     (case c of
        None \<Rightarrow> False
      | Some s \<Rightarrow> s \<noteq> [] \<and> length s \<le> 15 \<and> list_all (\<lambda>n. 48 \<le> n \<and> n \<le> 57) s \<and> (hd s \<noteq> 48 \<or> s = [48]))"

definition pandas_example :: "ustr pandas_casts" where
  "pandas_example =
     \<lparr> concat_cast = (\<lambda>tracks_df popularity_df c v.
         if rows popularity_df \<noteq> [] \<and> source_column (columns popularity_df) c = None \<and>
            list_all small_integer (column c tracks_df)
         then v @ ascii ''.0'' else v),
       append_cast = (\<lambda>tracks_df popularity_df pop_row c v. v),
       join_cast = (\<lambda>df_base df_todo c v. v) \<rparr>"



section \<open>Merging the artist tables (\<open>artists_cleaning_2\<close>)\<close>

text \<open>Exceptions that leave a function: they are results of the model.\<close>

datatype py_error = KeyError | AttributeError | ValueError

text \<open>\<open>df[names]\<close>: the table with the columns \<open>names\<close>.\<close>

definition select_columns :: "string list \<Rightarrow> 'a dataframe \<Rightarrow> 'a dataframe" where
  "select_columns names df =
     \<lparr> columns = names, rows = map (\<lambda>r. map (get_cell (columns df) r) names) (rows df) \<rparr>"

text \<open>One cell of \<open>df["artist_name"].str.strip().str.lower()\<close>: a missing name stays missing.\<close>

definition artist_key :: "unicode_db \<Rightarrow> cell \<Rightarrow> cell" where
  "artist_key U name = map_option (\<lambda>s. str_lower U (py_strip s)) name"

text \<open>The value of the column \<open>__key__\<close> in a row with the labels \<open>cs\<close>.\<close>

definition row_key :: "unicode_db \<Rightarrow> string list \<Rightarrow> cell list \<Rightarrow> cell" where
  "row_key U cs r = artist_key U (get_cell cs r ''artist_name'')"

definition cols_to_add :: "string list" where
  "cols_to_add = [''artist_genre'', ''artist_img'', ''country'']"

definition ordered_cols :: "string list" where
  "ordered_cols = [''artist_id'', ''artist_name''] @ cols_to_add"

text \<open>
  \<open>left.join(right, how="left")\<close> on the index, for rows given with their index value:
  the left rows in order, each one once for every right row with the same index value,
  in the order of the right table, or once with \<open>n\<close> missing values when there is none.
  Missing index values match each other.
\<close>

definition join_left :: "('k \<times> 'a option list) list \<Rightarrow> ('k \<times> 'a option list) list \<Rightarrow> nat \<Rightarrow> 'a option list list" where
  "join_left left right n =
     concat (map (\<lambda>(k, l).
                let ms = filter (\<lambda>(k', r). k' = k) right
                in if ms = [] then [l @ replicate n None] else map (\<lambda>(k', r). l @ r) ms)
              left)"

text \<open>
  \<open>merge_artists\<close>, from the two tables read, each with the kinds of its columns, to the
  table written to \<open>merged_out\<close>, or the exception raised. The accessor \<open>.str\<close> needs a
  column of text: on a column of numbers or booleans (and so on a column in which every
  cell is missing) it raises \<open>AttributeError\<close>. The column \<open>__key__\<close> is set in both
  tables and becomes the index; the base table keeps its other columns, the other table
  the columns to add, whose values the join converts when it changes their type.
\<close>

definition merge_artists ::
  "unicode_db \<Rightarrow> ustr pandas_casts \<Rightarrow> (string \<Rightarrow> column_kind) \<Rightarrow> (string \<Rightarrow> column_kind) \<Rightarrow>
   ustr dataframe \<Rightarrow> ustr dataframe \<Rightarrow> py_error + ustr dataframe" where
  "merge_artists U P base_kinds todo_kinds df_base df_todo =
     (if ''artist_name'' \<notin> set (columns df_base) then Inl KeyError
      else if base_kinds ''artist_name'' \<noteq> TextColumn then Inl AttributeError
      else if ''artist_name'' \<notin> set (columns df_todo) then Inl KeyError
      else if todo_kinds ''artist_name'' \<noteq> TextColumn then Inl AttributeError
      else if \<not> set cols_to_add \<subseteq> set (columns df_todo) then Inl KeyError
      else if set cols_to_add \<inter> set (columns df_base) \<noteq> {} then Inl ValueError
      else if ''artist_id'' \<notin> set (columns df_base) then Inl KeyError
      else
        (let base_cols = removeAll ''__key__'' (columns df_base);
             base_indexed =
               map (\<lambda>r. (row_key U (columns df_base) r, map (get_cell (columns df_base) r) base_cols))
                 (rows df_base);
             df_todo_subset =
               map (\<lambda>r. (row_key U (columns df_todo) r,
                          map (\<lambda>c. map_option (join_cast P df_base df_todo c) (get_cell (columns df_todo) r c))
                            cols_to_add))
                 (rows df_todo);
             merged =
               \<lparr> columns = base_cols @ cols_to_add,
                 rows = join_left base_indexed df_todo_subset (length cols_to_add) \<rparr>
         in Inr (select_columns ordered_cols merged)))"




text \<open>
  Example tables: a base table, a table with one row per key, a table with a repeated
  key, and the kinds of their columns: \<open>artist_id\<close> holds integers and every cell of
  \<open>artist_img\<close> is missing.
\<close>

definition artist_kinds :: "string \<Rightarrow> column_kind" where
  "artist_kinds c =
     (if c \<in> {''artist_name'', ''artist_genre'', ''country''} then TextColumn else OtherColumn)"

definition base_example :: "ustr dataframe" where
  "base_example =
     \<lparr> columns = [''artist_id'', ''artist_name''],
       rows = [[Some (ascii ''1''), Some (ascii ''Adele'')],
               [Some (ascii ''2''), Some (ascii ''Queen'')]] \<rparr>"



section \<open>Operations on tables\<close>

text \<open>
  \<open>df[c] = values\<close>, one value per row: an existing column is replaced in place, a new
  one is added last.
\<close>

definition set_column :: "string \<Rightarrow> 'a option list \<Rightarrow> 'a dataframe \<Rightarrow> 'a dataframe" where
  "set_column c values df =
     (if c \<in> set (columns df)
      then \<lparr> columns = columns df,
             rows = map (\<lambda>(r, v). put_cell (columns df) r c v) (zip (rows df) values) \<rparr>
      else \<lparr> columns = columns df @ [c],
             rows = map (\<lambda>(r, v). r @ [v]) (zip (rows df) values) \<rparr>)"

text \<open>\<open>df.drop(columns=names)\<close> for columns that exist: the other columns, in order.\<close>

definition drop_columns :: "string list \<Rightarrow> 'a dataframe \<Rightarrow> 'a dataframe" where
  "drop_columns names df = select_columns (filter (\<lambda>c. c \<notin> set names) (columns df)) df"

text \<open>\<open>df[flags]\<close> for a boolean series with one entry per row.\<close>

definition select_rows :: "bool list \<Rightarrow> 'a dataframe \<Rightarrow> 'a dataframe" where
  "select_rows flags df = \<lparr> columns = columns df, rows = map fst (filter snd (zip (rows df) flags)) \<rparr>"

text \<open>
  \<open>duplicated(keep='first')\<close> on the keys of the rows: an entry is marked when its key
  has been seen in an earlier row.
\<close>

fun duplicated_from :: "'k list \<Rightarrow> 'k list \<Rightarrow> bool list" where
  "duplicated_from seen [] = []"
| "duplicated_from seen (k # ks) = (k \<in> set seen) # duplicated_from (k # seen) ks"

definition duplicated :: "'k list \<Rightarrow> bool list" where
  "duplicated ks = duplicated_from [] ks"

text \<open>
  What a script leaves behind: the table written to the output file, if any, and the
  table returned to the caller (\<open>None\<close> for Python's \<open>None\<close>). The scripts catch every
  exception raised in their body, print it and return \<open>None\<close>.
\<close>

record 'r outcome =
  written :: "'r option"
  returned :: "'r option"

section \<open>Tracks: deduplication (\<open>tracks_cleaning_2\<close>)\<close>

text \<open>
  \<open>remove_duplicates_and_generate_ids\<close>, from the table read. A missing column ends the
  function before anything is written. The summary divides by the number of rows read
  (\<open>removed_count/original_count\<close>) before the table is written: on a table without rows
  this raises \<open>ZeroDivisionError\<close>. After the table is written, the statistics read
  \<open>df_deduplicated[artist_column]\<close>.
\<close>

definition remove_duplicates_and_generate_ids ::
  "unicode_db \<Rightarrow> ustr dataframe \<Rightarrow> string \<Rightarrow> string \<Rightarrow> ustr dataframe outcome" where
  "remove_duplicates_and_generate_ids U df song_column artist_column =
     (if song_column \<notin> set (columns df) then \<lparr> written = None, returned = None \<rparr>
      else if artist_column \<notin> set (columns df) then \<lparr> written = None, returned = None \<rparr>
      else
        (let original_count = length (rows df);
             df1 = set_column ''song_id''
                     (map (\<lambda>row. Some (generate_song_id_tracks2 U (get_cell (columns df) row song_column)
                                                          (get_cell (columns df) row artist_column)))
                        (rows df)) df;
             df2 = set_column ''normalized_song''
                     (map (\<lambda>c. Some (normalize_text_tracks2 U c)) (column song_column df1)) df1;
             df3 = set_column ''normalized_artist''
                     (map (\<lambda>c. Some (normalize_text_tracks2 U c)) (column artist_column df2)) df2;
             duplicate_mask = duplicated (zip (column ''normalized_song'' df3) (column ''normalized_artist'' df3));
             df4 = select_rows (map Not duplicate_mask) df3;
             df5 = drop_columns [''normalized_song'', ''normalized_artist''] df4;
             df_deduplicated = select_columns (''song_id'' # filter (\<lambda>col. col \<noteq> ''song_id'') (columns df5)) df5
         in if original_count = 0 then \<lparr> written = None, returned = None \<rparr>
            else if artist_column \<notin> set (columns df_deduplicated)
              then \<lparr> written = Some df_deduplicated, returned = None \<rparr>
            else \<lparr> written = Some df_deduplicated, returned = Some df_deduplicated \<rparr>))"

text \<open>
  The rows that are the first of their key: row \<open>i\<close> is kept when no earlier row has
  its key.
\<close>

definition first_occurrences :: "('r \<Rightarrow> 'k) \<Rightarrow> 'r list \<Rightarrow> 'r list" where
  "first_occurrences key rs =
     map (\<lambda>i. rs ! i) (filter (\<lambda>i. \<forall>j < i. key (rs ! j) \<noteq> key (rs ! i)) [0..<length rs])"


section \<open>Charts (\<open>charts_cleaning_2\<close>)\<close>

text \<open>\<open>extract_main_artist\<close>: the text before the first \<open>-\<close>, trimmed; empty for a missing cell.\<close>

definition extract_main_artist :: "cell \<Rightarrow> ustr" where
  "extract_main_artist artist =
     (case artist of None \<Rightarrow> [] | Some s \<Rightarrow> py_strip (hd (split_on 45 s)))"

text \<open>
  \<open>charts_cleaning_2.process_charts_csv\<close>. When a required column is missing it raises
  \<open>ValueError\<close>, which its own handler catches: nothing is written, \<open>None\<close> is returned.
\<close>

definition process_charts_csv_charts2 :: "unicode_db \<Rightarrow> ustr dataframe \<Rightarrow> ustr dataframe outcome" where
  "process_charts_csv_charts2 U df0 =
     (let df = (if ''song_id'' \<in> set (columns df0) then drop_columns [''song_id''] df0 else df0);
          required_columns = [''song'', ''artist''];
          missing_columns = filter (\<lambda>col. col \<notin> set (columns df)) required_columns
      in if missing_columns \<noteq> [] then \<lparr> written = None, returned = None \<rparr>
         else
           (let df1 = set_column ''artist''
                        (map (\<lambda>c. Some (extract_main_artist c)) (column ''artist'' df)) df;
                df2 = set_column ''song_id''
                        (map (\<lambda>row. Some (generate_song_id_charts2 U (get_cell (columns df1) row ''song'')
                                                             (get_cell (columns df1) row ''artist'')))
                           (rows df1)) df1;
                df3 = select_columns (''song_id'' # filter (\<lambda>col. col \<noteq> ''song_id'') (columns df2)) df2
            in \<lparr> written = Some df3, returned = Some df3 \<rparr>))"

section \<open>Charts (\<open>charts_cleaning_1\<close>)\<close>

text \<open>
  The patterns of \<open>clean_artist_name\<close> are sequences of \<open>\s+\<close>, \<open>\s*\<close>, a literal character
  and an optional literal character, matched under \<open>re.IGNORECASE\<close>. In these patterns a
  run of whitespace is always followed by a character that is not whitespace, so the
  greedy match is the only one and no backtracking is needed.
\<close>

datatype re_item = Ws1 | Ws0 | Lit nat | OptLit nat

text \<open>\<open>re_match\<close>: the text left after a match of the pattern at the start of the text.\<close>

fun re_match :: "unicode_db \<Rightarrow> re_item list \<Rightarrow> ustr \<Rightarrow> ustr option" where
  "re_match U [] s = Some s"
| "re_match U (Ws1 # p) [] = None"
| "re_match U (Ws1 # p) (c # cs) =
     (if py_isspace c then re_match U p (dropWhile py_isspace cs) else None)"
| "re_match U (Ws0 # p) s = re_match U p (dropWhile py_isspace s)"
| "re_match U (Lit l # p) [] = None"
| "re_match U (Lit l # p) (c # cs) = (if ignorecase_eq U l c then re_match U p cs else None)"
| "re_match U (OptLit l # p) [] = re_match U p []"
| "re_match U (OptLit l # p) (c # cs) =
     (if ignorecase_eq U l c then re_match U p cs else re_match U p (c # cs))"

text \<open>
  \<open>re.sub(pattern, repl, text)\<close>: the matches are found from left to right and replaced;
  after an empty match the scan moves on by one character.
\<close>

function re_sub :: "unicode_db \<Rightarrow> re_item list \<Rightarrow> ustr \<Rightarrow> ustr \<Rightarrow> ustr" where
  "re_sub U p repl [] = (case re_match U p [] of Some rest \<Rightarrow> repl | None \<Rightarrow> [])"
| "re_sub U p repl (c # cs) =
     (case re_match U p (c # cs) of
        None \<Rightarrow> c # re_sub U p repl cs
      | Some rest \<Rightarrow>
          if length rest < length (c # cs) then repl @ re_sub U p repl rest
          else repl @ c # re_sub U p repl cs)"
  by pat_completeness auto
termination
  by (relation "measure (\<lambda>(U, p, repl, s). length s)") auto

definition artist_separators :: "re_item list list" where
  "artist_separators =
     [[Ws1, Lit 120, Ws1],
      [Ws1, Lit 102, Lit 101, Lit 97, Lit 116, OptLit 46, Ws1],
      [Ws1, Lit 102, Lit 101, Lit 97, Lit 116, Lit 117, Lit 114, Lit 105, Lit 110, Lit 103, Ws1],
      [Ws1, Lit 38, Ws1],
      [Ws0, Lit 44, Ws0]]"

text \<open>
  \<open>clean_artist_name\<close>: quotes removed, each separator replaced by \<open>' - '\<close>, whitespace runs
  replaced by one space, trimmed. A missing cell stays missing.
\<close>

definition clean_artist_name :: "unicode_db \<Rightarrow> cell \<Rightarrow> cell" where
  "clean_artist_name U artist =
     (case artist of
        None \<Rightarrow> None
      | Some s \<Rightarrow>
          (let a1 = filter (\<lambda>c. c \<noteq> 34 \<and> c \<noteq> 39) s;
               a2 = foldl (\<lambda>a pattern. re_sub U pattern [32, 45, 32] a) a1 artist_separators;
               a3 = py_strip (re_sub U [Ws1] [32] a2)
           in Some a3))"

text \<open>
  \<open>charts_cleaning_1.process_charts_csv\<close>. A missing column is reported by a printed
  warning and the step is skipped. After the table is written, the statistics read the
  columns \<open>song\<close>, \<open>artist\<close> and \<open>song_id\<close> when the table has a column \<open>song_id\<close>.
\<close>

definition process_charts_csv_charts1 :: "unicode_db \<Rightarrow> ustr dataframe \<Rightarrow> ustr dataframe outcome" where
  "process_charts_csv_charts1 U df0 =
     (let df1 = (if ''last-week'' \<in> set (columns df0) then drop_columns [''last-week''] df0 else df0);
          df2 = (if ''artist'' \<in> set (columns df1)
                 then set_column ''artist'' (map (clean_artist_name U) (column ''artist'' df1)) df1
                 else df1);
          df3 = (if ''song'' \<in> set (columns df2) \<and> ''artist'' \<in> set (columns df2)
                 then set_column ''song_id''
                        (map (\<lambda>row. generate_song_id_charts1 U (get_cell (columns df2) row ''song'')
                                                           (get_cell (columns df2) row ''artist''))
                           (rows df2)) df2
                 else df2);
          df4 = (if ''song_id'' \<in> set (columns df3)
                 then select_columns (''song_id'' # remove1 ''song_id'' (columns df3)) df3
                 else df3)
      in if ''song_id'' \<in> set (columns df4) \<and>
            \<not> (''song'' \<in> set (columns df4) \<and> ''artist'' \<in> set (columns df4))
         then \<lparr> written = Some df4, returned = None \<rparr>
         else \<lparr> written = Some df4, returned = Some df4 \<rparr>)"

section \<open>Rows of the tables written\<close>

text \<open>The labels and the cells of a row after \<open>df[c] = values\<close>, where \<open>v\<close> is the row's value.\<close>

definition cols_set :: "string list \<Rightarrow> string \<Rightarrow> string list" where
  "cols_set cs c = (if c \<in> set cs then cs else cs @ [c])"




definition charts_no_artist :: "ustr dataframe" where
  "charts_no_artist =
     \<lparr> columns = [''song'', ''rank'', ''last-week''],
       rows = [[Some (ascii ''Hello''), Some (ascii ''1''), Some (ascii ''2.0'')],
               [Some (ascii ''Skyfall''), Some (ascii ''2''), None]] \<rparr>"

section \<open>Facts about the text operations\<close>

lemma split_ws_chars:
  "w' \<in> set (split_ws w s) \<Longrightarrow> c \<in> set w' \<Longrightarrow> c \<in> set w \<or> (c \<in> set s \<and> \<not> py_isspace c)"
proof (induction s arbitrary: w)
  case Nil
  then show ?case by (auto split: if_splits)
next
  case (Cons a s)
  show ?case
  proof (cases "py_isspace a")
    case True
    with Cons.prems have "w' = w \<or> w' \<in> set (split_ws [] s)"
      by (auto split: if_splits)
    then show ?thesis
    proof
      assume "w' = w"
      with Cons.prems show ?thesis by simp
    next
      assume "w' \<in> set (split_ws [] s)"
      from Cons.IH [OF this Cons.prems(2)] show ?thesis by simp
    qed
  next
    case False
    with Cons.prems have "w' \<in> set (split_ws (w @ [a]) s)" by simp
    from Cons.IH [OF this Cons.prems(2)] False show ?thesis by auto
  qed
qed

lemma py_split_chars:
  "w \<in> set (py_split s) \<Longrightarrow> c \<in> set w \<Longrightarrow> c \<in> set s \<and> \<not> py_isspace c"
  using split_ws_chars [of w "[]" s c] by (simp add: py_split_def)

lemma py_join_chars:
  "c \<in> set (py_join sep ws) \<Longrightarrow> c \<in> set sep \<or> (\<exists>w \<in> set ws. c \<in> set w)"
  by (induction sep ws rule: py_join.induct) auto

lemma py_strip_chars: "c \<in> set (py_strip s) \<Longrightarrow> c \<in> set s"
proof -
  assume "c \<in> set (py_strip s)"
  then have "c \<in> set (dropWhile py_isspace (rev (dropWhile py_isspace s)))"
    by (simp add: py_strip_def)
  then have "c \<in> set (rev (dropWhile py_isspace s))"
    by (rule set_mp [OF set_dropWhileD [THEN subsetI], rotated])
  then show ?thesis
    by (auto dest: set_dropWhileD)
qed

lemma join_split_chars:
  "c \<in> set (py_join [32] (py_split s)) \<Longrightarrow> c = 32 \<or> (c \<in> set s \<and> \<not> py_isspace c)"
  by (auto dest!: py_join_chars dest: py_split_chars)

lemma latin1_db_simps:
  "str_lower latin1_db s = map latin1_lower_char s"
  "nfd latin1_db s = concat (map latin1_nfd_char s)"
  "category_Mn latin1_db c \<longleftrightarrow> 768 \<le> c \<and> c \<le> 879"
  "isalnum latin1_db c = latin1_isalnum c"
  "ignorecase_eq latin1_db literal c \<longleftrightarrow> latin1_lower_char c = latin1_lower_char literal"
  by (simp_all add: latin1_db_def)

lemmas text_eval =
  ascii_def py_split_def py_isspace_def py_strip_def latin1_db_simps latin1_lower_char_def
  latin1_nfd_char_def latin1_decomposition_def latin1_isalnum_def re_word_def is_a_z_def
  is_0_9_def Let_def

section \<open>Normalization: output character set\<close>

text \<open>
  Examples. \<open>charts_cleaning_2\<close> deletes an accented letter together with its accent;
  \<open>tracks_cleaning_2\<close> folds it to its base letter, and keeps the underscore and the
  letters that have no decomposition.
\<close>

lemma normalize_text_charts2_example:
  "normalize_text_charts2 latin1_db (Some (ascii ''  AC/DC_  Live! '')) = ascii ''acdc live''"
  by (simp add: normalize_text_charts2_def text_eval split del: if_split)

lemma normalize_text_tracks2_example:
  "normalize_text_tracks2 latin1_db (Some (ascii ''  AC/DC_  Live! '')) = ascii ''acdc_ live''"
  by (simp add: normalize_text_tracks2_def text_eval split del: if_split)

text \<open>
  Claim C4, as amended. For every input (absent values included) and every Unicode
  database, \<open>charts_cleaning_2.normalize_text\<close> returns only characters of \<open>[a-z0-9 ]\<close>.
  \<open>tracks_cleaning_2.normalize_text\<close> returns only spaces (U+0020) and characters of the
  class \<open>\w\<close> (alphanumeric in any script, or underscore) that are neither whitespace nor
  combining marks.
\<close>

theorem normalize_text_charset:
  "(\<forall>c \<in> set (normalize_text_charts2 U x). canonical_char c) \<and>
   (\<forall>c \<in> set (normalize_text_tracks2 U x).
       c = 32 \<or> (re_word U c \<and> \<not> py_isspace c \<and> \<not> category_Mn U c))"
proof (intro conjI ballI)
  fix c assume "c \<in> set (normalize_text_charts2 U x)"
  then show "canonical_char c"
    by (cases x) (auto simp: normalize_text_charts2_def canonical_char_def Let_def
        dest!: join_split_chars)
next
  fix c assume "c \<in> set (normalize_text_tracks2 U x)"
  then show "c = 32 \<or> (re_word U c \<and> \<not> py_isspace c \<and> \<not> category_Mn U c)"
    by (cases x) (auto simp: normalize_text_tracks2_def Let_def
        dest!: py_strip_chars join_split_chars)
qed

theorem normalize_text_charset_witness:
  "normalize_text_charts2 latin1_db (Some (ascii ''  AC/DC_  Live! '')) = ascii ''acdc live'' \<and>
   list_all canonical_char (normalize_text_charts2 latin1_db (Some (ascii ''  AC/DC_  Live! ''))) \<and>
   normalize_text_tracks2 latin1_db (Some (ascii ''  AC/DC_  Live! '')) = ascii ''acdc_ live'' \<and>
   list_all (\<lambda>c. c = 32 \<or> (re_word latin1_db c \<and> \<not> py_isspace c \<and> \<not> category_Mn latin1_db c))
     (normalize_text_tracks2 latin1_db (Some (ascii ''  AC/DC_  Live! '')))"
  using normalize_text_charset [of latin1_db "Some (ascii ''  AC/DC_  Live! '')"]
    normalize_text_charts2_example normalize_text_tracks2_example
  by (simp only: list_all_iff simp_thms)

text \<open>
  Claim C4 as stated fails for \<open>tracks_cleaning_2.normalize_text\<close>: on the text
  \<open>"\<o>_"\<close> (U+00F8, U+005F) it returns the text unchanged, and neither character is in
  \<open>[a-z0-9 ]\<close>.
\<close>

theorem normalize_text_charset_counterexample:
  "normalize_text_tracks2 latin1_db (Some [248, 95]) = [248, 95] \<and>
   \<not> canonical_char 248 \<and> \<not> canonical_char 95"
  by (simp add: normalize_text_tracks2_def canonical_char_def text_eval split del: if_split)

section \<open>MD5: evaluation and test vectors\<close>

lemma le_bytes_numeral:
  "le_bytes (numeral k) x = (x mod 256) # le_bytes (pred_numeral k) (x div 256)"
  by (metis le_bytes.simps(2) numeral_eq_Suc)

lemma replicate_numeral_unfold:
  "replicate (numeral k) x = x # replicate (pred_numeral k) x"
  by (metis replicate_Suc numeral_eq_Suc)

lemmas md5_eval =
  md5_hexdigest_def md5_def md5_pad_def md5_K_def md5_S_def md5_f_def md5_g_def rotl32_def
  hex_digit_def le_bytes_numeral replicate_numeral_unfold upt_rec encode_utf8_def utf8_char_def
  ascii_def

text \<open>The test suite of RFC 1321, section A.5: \<open>MD5("abc")\<close>.\<close>

lemma md5_hexdigest_abc:
  "md5_hexdigest (ascii ''abc'') = ascii ''900150983cd24fb0d6963f7d28e17f72''"
  by (simp add: md5_eval split del: if_split)

lemma length_le_bytes: "length (le_bytes n x) = n"
  by (induction n arbitrary: x) simp_all

lemma length_md5: "length (md5 m) = 16"
  by (simp add: md5_def length_le_bytes split: prod.split)

lemma length_md5_hexdigest: "length (md5_hexdigest m) = 32"
proof -
  have "length (concat (map (\<lambda>b. [f b, g b]) bs)) = 2 * length bs" for f g :: "nat \<Rightarrow> nat" and bs
    by (induction bs) simp_all
  then show ?thesis
    by (simp add: md5_hexdigest_def length_md5)
qed

section \<open>Key generation\<close>

lemma normalize_text_tracks2_ed:
  "normalize_text_tracks2 latin1_db (Some ed_plain) = ascii ''ed sheeran''"
  "normalize_text_tracks2 latin1_db (Some ed_shouted) = ascii ''ed sheeran''"
  "normalize_text_tracks2 latin1_db (Some ed_accented) = ascii ''ed sheeran''"
  by (simp_all add: normalize_text_tracks2_def ed_plain_def ed_shouted_def ed_accented_def
      text_eval split del: if_split)

lemma normalize_text_charts2_ed:
  "normalize_text_charts2 latin1_db (Some ed_plain) = ascii ''ed sheeran''"
  "normalize_text_charts2 latin1_db (Some ed_shouted) = ascii ''ed sheeran''"
  "normalize_text_charts2 latin1_db (Some ed_accented) = ascii ''d sheran''"
  by (simp_all add: normalize_text_charts2_def ed_plain_def ed_shouted_def ed_accented_def
      text_eval split del: if_split)

text \<open>
  Claim C3. In both scripts \<open>generate_song_id\<close> depends on its two fields only through
  their normalized forms: fields that agree after normalization, position by position,
  give the same key. The functions read no state, so two calls on the same fields give
  the same key.
\<close>

theorem generate_song_id_congruence:
  "(normalize_text_charts2 U s1 = normalize_text_charts2 U s2 \<and>
    normalize_text_charts2 U a1 = normalize_text_charts2 U a2 \<longrightarrow>
      generate_song_id_charts2 U s1 a1 = generate_song_id_charts2 U s2 a2) \<and>
   (normalize_text_tracks2 U s1 = normalize_text_tracks2 U s2 \<and>
    normalize_text_tracks2 U a1 = normalize_text_tracks2 U a2 \<longrightarrow>
      generate_song_id_tracks2 U s1 a1 = generate_song_id_tracks2 U s2 a2) \<and>
   generate_song_id_charts2 U s1 a1 =
     md5_hexdigest (encode_utf8 (normalize_text_charts2 U s1 @ [124] @ normalize_text_charts2 U a1)) \<and>
   generate_song_id_tracks2 U s1 a1 =
     md5_hexdigest (encode_utf8 (normalize_text_tracks2 U s1 @ [124] @ normalize_text_tracks2 U a1))"
  by (simp add: generate_song_id_charts2_def generate_song_id_tracks2_def Let_def)

theorem generate_song_id_congruence_witness:
  "normalize_text_charts2 latin1_db (Some ed_plain) = normalize_text_charts2 latin1_db (Some ed_shouted) \<and>
   normalize_text_charts2 latin1_db None = normalize_text_charts2 latin1_db (Some (ascii '' ! ''))  \<and>
   generate_song_id_charts2 latin1_db (Some ed_plain) None =
     generate_song_id_charts2 latin1_db (Some ed_shouted) (Some (ascii '' ! '')) \<and>
   normalize_text_tracks2 latin1_db (Some ed_plain) = normalize_text_tracks2 latin1_db (Some ed_accented) \<and>
   normalize_text_tracks2 latin1_db None = normalize_text_tracks2 latin1_db (Some (ascii '' ! '')) \<and>
   generate_song_id_tracks2 latin1_db (Some ed_plain) None =
     generate_song_id_tracks2 latin1_db (Some ed_accented) (Some (ascii '' ! ''))"
proof -
  have c: "normalize_text_charts2 latin1_db None = normalize_text_charts2 latin1_db (Some (ascii '' ! ''))"
    by (simp add: normalize_text_charts2_def text_eval split del: if_split)
  have t: "normalize_text_tracks2 latin1_db None = normalize_text_tracks2 latin1_db (Some (ascii '' ! ''))"
    by (simp add: normalize_text_tracks2_def text_eval split del: if_split)
  have sc: "normalize_text_charts2 latin1_db (Some ed_plain) = normalize_text_charts2 latin1_db (Some ed_shouted)"
    by (simp only: normalize_text_charts2_ed)
  have st: "normalize_text_tracks2 latin1_db (Some ed_plain) = normalize_text_tracks2 latin1_db (Some ed_accented)"
    by (simp only: normalize_text_tracks2_ed)
  from c t sc st
    generate_song_id_congruence [of latin1_db "Some ed_plain" "Some ed_shouted" None "Some (ascii '' ! '')"]
    generate_song_id_congruence [of latin1_db "Some ed_plain" "Some ed_accented" None "Some (ascii '' ! '')"]
  show ?thesis by blast
qed

lemma md5_hexdigest_ed:
  "md5_hexdigest (encode_utf8 (ascii ''ed sheeran|'')) = ascii ''13ced826b89221afb69966f7e0d7ba70''"
  "md5_hexdigest (encode_utf8 (ascii ''d sheran|'')) = ascii ''a63499cfc69cb7b59cda055cfbf5bb29''"
  by (simp_all add: md5_eval split del: if_split)

text \<open>
  Claim C5, as amended. With \<open>tracks_cleaning_2\<close> the three spellings give the same key,
  as the song and as the artist, whatever the other field: case, surrounding and repeated
  whitespace and diacritics are folded. With \<open>charts_cleaning_2\<close> the first two spellings
  give the same key, but an accented letter is deleted with its accent: the third
  spelling is normalized to \<open>"d sheran"\<close>.
\<close>

theorem song_key_insensitivity:
  "generate_song_id_tracks2 latin1_db (Some ed_shouted) a =
     generate_song_id_tracks2 latin1_db (Some ed_plain) a \<and>
   generate_song_id_tracks2 latin1_db (Some ed_accented) a =
     generate_song_id_tracks2 latin1_db (Some ed_plain) a \<and>
   generate_song_id_tracks2 latin1_db a (Some ed_shouted) =
     generate_song_id_tracks2 latin1_db a (Some ed_plain) \<and>
   generate_song_id_tracks2 latin1_db a (Some ed_accented) =
     generate_song_id_tracks2 latin1_db a (Some ed_plain) \<and>
   generate_song_id_charts2 latin1_db (Some ed_shouted) a =
     generate_song_id_charts2 latin1_db (Some ed_plain) a \<and>
   generate_song_id_charts2 latin1_db a (Some ed_shouted) =
     generate_song_id_charts2 latin1_db a (Some ed_plain) \<and>
   normalize_text_charts2 latin1_db (Some ed_accented) = ascii ''d sheran'' \<and>
   normalize_text_charts2 latin1_db (Some ed_plain) = ascii ''ed sheeran''"
  by (simp add: generate_song_id_tracks2_def generate_song_id_charts2_def
      normalize_text_tracks2_ed normalize_text_charts2_ed)

theorem song_key_insensitivity_witness:
  "generate_song_id_tracks2 latin1_db (Some ed_accented) None =
     generate_song_id_tracks2 latin1_db (Some ed_plain) None \<and>
   generate_song_id_tracks2 latin1_db None (Some ed_shouted) =
     generate_song_id_tracks2 latin1_db None (Some ed_plain)"
  using song_key_insensitivity [of None] by simp

text \<open>
  Claim C5 as stated fails for \<open>charts_cleaning_2\<close>: with no artist, the accented
  spelling is hashed as \<open>"d sheran|"\<close> and the plain one as \<open>"ed sheeran|"\<close>, and the two
  MD5 digests differ.
\<close>

theorem song_key_insensitivity_counterexample:
  "generate_song_id_charts2 latin1_db (Some ed_accented) None =
     ascii ''a63499cfc69cb7b59cda055cfbf5bb29'' \<and>
   generate_song_id_charts2 latin1_db (Some ed_plain) None =
     ascii ''13ced826b89221afb69966f7e0d7ba70'' \<and>
   generate_song_id_charts2 latin1_db (Some ed_accented) None \<noteq>
     generate_song_id_charts2 latin1_db (Some ed_plain) None"
proof -
  have none: "normalize_text_charts2 latin1_db None = []"
    by (simp add: normalize_text_charts2_def)
  have a: "generate_song_id_charts2 latin1_db (Some ed_accented) None =
      md5_hexdigest (encode_utf8 (ascii ''d sheran|''))"
    by (simp add: generate_song_id_charts2_def normalize_text_charts2_ed none ascii_def)
  have p: "generate_song_id_charts2 latin1_db (Some ed_plain) None =
      md5_hexdigest (encode_utf8 (ascii ''ed sheeran|''))"
    by (simp add: generate_song_id_charts2_def normalize_text_charts2_ed none ascii_def)
  have "ascii ''a63499cfc69cb7b59cda055cfbf5bb29'' \<noteq> ascii ''13ced826b89221afb69966f7e0d7ba70''"
    by (simp add: ascii_def)
  with a p show ?thesis
    by (simp only: md5_hexdigest_ed) simp
qed

text \<open>
  Claim C7, as amended. An absent field is normalized to the empty string, and
  \<open>generate_song_id\<close> of \<open>charts_cleaning_2\<close> and \<open>tracks_cleaning_2\<close> still returns a key:
  the digest of the other field's normalized form next to the separator, always 32
  characters long. \<open>charts_cleaning_1.generate_song_id\<close> returns no key exactly when the
  song or the artist is absent.
\<close>

theorem absent_field_key:
  "normalize_text_charts2 U None = [] \<and> normalize_text_tracks2 U None = [] \<and>
   generate_song_id_charts2 U None a =
     md5_hexdigest (encode_utf8 ([124] @ normalize_text_charts2 U a)) \<and>
   generate_song_id_charts2 U s None =
     md5_hexdigest (encode_utf8 (normalize_text_charts2 U s @ [124])) \<and>
   generate_song_id_tracks2 U None a =
     md5_hexdigest (encode_utf8 ([124] @ normalize_text_tracks2 U a)) \<and>
   generate_song_id_tracks2 U s None =
     md5_hexdigest (encode_utf8 (normalize_text_tracks2 U s @ [124])) \<and>
   length (generate_song_id_charts2 U s a) = 32 \<and>
   length (generate_song_id_tracks2 U s a) = 32 \<and>
   (generate_song_id_charts1 U s a = None \<longleftrightarrow> s = None \<or> a = None)"
proof -
  have "generate_song_id_charts1 U s a = None \<longleftrightarrow> s = None \<or> a = None"
    by (cases s; cases a) (simp_all add: generate_song_id_charts1_def Let_def)
  then show ?thesis
    by (simp add: generate_song_id_charts2_def generate_song_id_tracks2_def
        normalize_text_charts2_def normalize_text_tracks2_def length_md5_hexdigest)
qed

theorem absent_field_key_witness:
  "generate_song_id_charts2 latin1_db None None = md5_hexdigest [124] \<and>
   generate_song_id_tracks2 latin1_db None None = md5_hexdigest [124] \<and>
   length (generate_song_id_tracks2 latin1_db None (Some ed_plain)) = 32 \<and>
   generate_song_id_charts1 latin1_db (Some ed_plain) (Some ed_plain) \<noteq> None"
proof -
  have "encode_utf8 [124] = [124]"
    by (simp add: encode_utf8_def utf8_char_def)
  then show ?thesis
    using absent_field_key [where U = latin1_db and s = None and a = None]
      absent_field_key [where U = latin1_db and s = "Some ed_plain" and a = "Some ed_plain"]
    by (simp add: length_md5_hexdigest)
qed

text \<open>
  Claim C7 as stated fails for \<open>charts_cleaning_1.generate_song_id\<close>: with the song
  absent it returns no key.
\<close>

theorem absent_field_key_counterexample:
  "generate_song_id_charts1 latin1_db None (Some ed_plain) = None"
  by (simp add: generate_song_id_charts1_def)

section \<open>Splitting a multi-artist field\<close>

lemma split_on_nonempty: "split_on d s \<noteq> []"
  by (induction s) (simp_all add: Let_def)

lemma length_split_on: "length (split_on d s) = Suc (count_list s d)"
proof (induction s)
  case Nil
  then show ?case by simp
next
  case (Cons c s)
  have "length (tl (split_on d s)) = count_list s d"
    using Cons.IH by simp
  with Cons.IH show ?case by (simp add: Let_def)
qed

lemma split_on_no_delimiter: "p \<in> set (split_on d s) \<Longrightarrow> d \<notin> set p"
proof (induction s arbitrary: p)
  case Nil
  then show ?case by simp
next
  case (Cons c s)
  obtain q qs where q: "split_on d s = q # qs"
    using split_on_nonempty [of d s] by (cases "split_on d s") auto
  show ?case
  proof (cases "c = d")
    case True
    with Cons show ?thesis by auto
  next
    case False
    with Cons.prems q have "p = c # q \<or> p \<in> set qs" by (simp add: Let_def)
    with Cons.IH q False show ?thesis by auto
  qed
qed

lemma join_split_on: "py_join [d] (split_on d s) = s"
proof (induction s)
  case Nil
  then show ?case by simp
next
  case (Cons c s)
  obtain q qs where q: "split_on d s = q # qs"
    using split_on_nonempty [of d s] by (cases "split_on d s") auto
  show ?case
  proof (cases "c = d")
    case True
    with Cons q show ?thesis by simp
  next
    case False
    with Cons q show ?thesis by (cases qs) (simp_all add: Let_def)
  qed
qed

lemma dropWhile_hd: "dropWhile P xs \<noteq> [] \<Longrightarrow> \<not> P (hd (dropWhile P xs))"
  by (metis hd_dropWhile)

lemma py_strip_trimmed:
  "py_strip s = [] \<or> (\<not> py_isspace (hd (py_strip s)) \<and> \<not> py_isspace (last (py_strip s)))"
proof (cases "py_strip s = []")
  case True
  then show ?thesis by simp
next
  case False
  define ys where "ys = dropWhile py_isspace s"
  define zs where "zs = dropWhile py_isspace (rev ys)"
  have strip: "py_strip s = rev zs"
    by (simp add: py_strip_def ys_def zs_def)
  with False have zs: "zs \<noteq> []" by simp
  then have "\<not> py_isspace (hd zs)"
    unfolding zs_def by (rule dropWhile_hd)
  then have l: "\<not> py_isspace (last (py_strip s))"
    using zs by (simp add: strip last_rev)
  from zs have ys: "ys \<noteq> []"
    by (auto simp: zs_def)
  obtain us where us: "rev ys = us @ zs"
    unfolding zs_def by (metis takeWhile_dropWhile_id)
  have "last zs = last (rev ys)"
    using zs us by simp
  also have "\<dots> = hd ys"
    using ys by (simp add: last_rev)
  finally have "hd (py_strip s) = hd ys"
    using zs by (simp add: strip hd_rev)
  moreover have "\<not> py_isspace (hd ys)"
    using ys unfolding ys_def by (rule dropWhile_hd)
  ultimately show ?thesis using l by simp
qed

text \<open>
  Claim C8, as amended. The artist field is split on the comma and every piece is
  trimmed; \<^emph>\<open>empty pieces are kept\<close>: there is one piece per comma, plus one. The pieces
  between the commas, joined by commas again, are the field itself. The two examples of
  the specification hold.
\<close>

theorem split_artists_pieces:
  "split_artists s = map py_strip (split_on 44 s) \<and>
   py_join [44] (split_on 44 s) = s \<and>
   length (split_artists s) = Suc (count_list s 44) \<and>
   (\<forall>p \<in> set (split_artists s).
      44 \<notin> set p \<and> (p = [] \<or> (\<not> py_isspace (hd p) \<and> \<not> py_isspace (last p)))) \<and>
   split_artists (ascii ''Dua Lipa, Elton John'') = [ascii ''Dua Lipa'', ascii ''Elton John''] \<and>
   split_artists (ascii ''Solo Artist'') = [ascii ''Solo Artist'']"
proof -
  have "44 \<notin> set p \<and> (p = [] \<or> (\<not> py_isspace (hd p) \<and> \<not> py_isspace (last p)))"
    if "p \<in> set (split_artists s)" for p
  proof -
    from that obtain q where q: "q \<in> set (split_on 44 s)" and p: "p = py_strip q"
      by (auto simp: split_artists_def)
    from q have "44 \<notin> set q" by (rule split_on_no_delimiter)
    then have "44 \<notin> set p" using p py_strip_chars by blast
    then show ?thesis using py_strip_trimmed [of q] p by simp
  qed
  moreover have "split_artists (ascii ''Dua Lipa, Elton John'') = [ascii ''Dua Lipa'', ascii ''Elton John'']"
    by (simp add: split_artists_def text_eval split del: if_split)
  moreover have "split_artists (ascii ''Solo Artist'') = [ascii ''Solo Artist'']"
    by (simp add: split_artists_def text_eval split del: if_split)
  ultimately show ?thesis
    by (simp add: split_artists_def join_split_on length_split_on)
qed

theorem split_artists_pieces_witness:
  "split_artists (ascii ''AC/DC , Queen'') = [ascii ''AC/DC'', ascii ''Queen''] \<and>
   length (split_artists (ascii ''AC/DC , Queen'')) = Suc (count_list (ascii ''AC/DC , Queen'') 44) \<and>
   list_all (\<lambda>p. 44 \<notin> set p \<and> (p = [] \<or> (\<not> py_isspace (hd p) \<and> \<not> py_isspace (last p))))
     (split_artists (ascii ''AC/DC , Queen''))"
proof -
  have "split_artists (ascii ''AC/DC , Queen'') = [ascii ''AC/DC'', ascii ''Queen'']"
    by (simp add: split_artists_def text_eval split del: if_split)
  then show ?thesis
    using split_artists_pieces [of "ascii ''AC/DC , Queen''"]
    unfolding list_all_iff by blast
qed

text \<open>
  Claim C8 as stated fails: empty pieces are not dropped. Two commas in a row give an
  empty artist name.
\<close>

theorem split_artists_pieces_counterexample:
  "split_artists (ascii ''Dua Lipa,, Elton John'') = [ascii ''Dua Lipa'', [], ascii ''Elton John'']"
  by (simp add: split_artists_def text_eval split del: if_split)

text \<open>
  The empty piece is not dropped later either: it is an artist of the column, so it has
  an identifier in the dictionary and \<open>get_artist_ids\<close> returns one identifier per piece.
\<close>

lemma get_artist_ids_keeps_empty_piece:
  "get_artist_ids (artist_to_id U [Some (ascii ''Dua Lipa,, Elton John'')] [])
     (Some (ascii ''Dua Lipa,, Elton John'')) =
   Some (generate_artist_id U (ascii ''Dua Lipa'') @ [44] @ generate_artist_id U [] @ [44] @
         generate_artist_id U (ascii ''Elton John''))"
proof -
  have s: "split_artists (ascii ''Dua Lipa,, Elton John'') = [ascii ''Dua Lipa'', [], ascii ''Elton John'']"
    by (simp add: split_artists_def text_eval split del: if_split)
  show ?thesis
    by (simp add: get_artist_ids_def artist_to_id_def column_artists_def s)
qed

section \<open>Trailing \<open>.0\<close>\<close>

text \<open>
  Claim C10. The first line is written as it is and the number of lines is preserved.
  Every later line is written as its content (the line without its trailing newline
  characters), minus the last two characters exactly when the content ends with \<open>.0\<close>,
  followed by one newline. So a line \<open>content + '\n'\<close> whose content does not end with \<open>.0\<close>
  is written unchanged, and each written line depends on its own input line only.
\<close>

theorem processed_lines_local:
  "length (processed_lines lines) = length lines \<and>
   (lines \<noteq> [] \<longrightarrow> processed_lines lines ! 0 = lines ! 0) \<and>
   (\<forall>i. 0 < i \<and> i < length lines \<longrightarrow>
      processed_lines lines ! i =
        (if py_endswith (rstrip_newlines (lines ! i)) [46, 48]
         then butlast (butlast (rstrip_newlines (lines ! i)))
         else rstrip_newlines (lines ! i)) @ [10]) \<and>
   (\<forall>i content. 0 < i \<and> i < length lines \<and> lines ! i = content @ [10] \<and>
        rstrip_newlines content = content \<and> \<not> py_endswith content [46, 48] \<longrightarrow>
      processed_lines lines ! i = lines ! i)"
proof (cases lines)
  case Nil
  then show ?thesis by simp
next
  case (Cons header rest)
  have bb: "take (length l - 2) l = butlast (butlast l)" for l :: ustr
    by (simp add: butlast_conv_take numeral_2_eq_2)
  have step: "processed_lines lines ! i =
        (if py_endswith (rstrip_newlines (lines ! i)) [46, 48]
         then butlast (butlast (rstrip_newlines (lines ! i)))
         else rstrip_newlines (lines ! i)) @ [10]"
    if "0 < i" "i < length lines" for i
  proof -
    from that obtain j where j: "i = Suc j" "j < length rest"
      using Cons by (cases i) auto
    then show ?thesis
      using Cons by (simp add: process_line_def Let_def bb)
  qed
  have keep: "processed_lines lines ! i = lines ! i"
    if "0 < i" "i < length lines" "lines ! i = content @ [10]"
      "rstrip_newlines content = content" "\<not> py_endswith content [46, 48]" for i content
  proof -
    have "rstrip_newlines (content @ [10]) = rstrip_newlines content"
      by (simp add: rstrip_newlines_def)
    with that step [of i] show ?thesis by simp
  qed
  from Cons step keep show ?thesis by auto
qed

theorem processed_lines_local_witness:
  "processed_lines [ascii ''song,rank'' @ [10], ascii ''a,1.0'' @ [10], ascii ''b,2'' @ [10], ascii ''c,3.0''] =
     [ascii ''song,rank'' @ [10], ascii ''a,1'' @ [10], ascii ''b,2'' @ [10], ascii ''c,3'' @ [10]] \<and>
   processed_lines [ascii ''song,rank'' @ [10], ascii ''a,1.0'' @ [10], ascii ''b,2'' @ [10], ascii ''c,3.0''] ! 2 =
     ascii ''b,2'' @ [10] \<and>
   length (processed_lines [ascii ''song,rank'' @ [10], ascii ''a,1.0'' @ [10], ascii ''b,2'' @ [10], ascii ''c,3.0'']) = 4"
proof -
  let ?ls = "[ascii ''song,rank'' @ [10], ascii ''a,1.0'' @ [10], ascii ''b,2'' @ [10], ascii ''c,3.0'']"
  have v: "processed_lines ?ls =
     [ascii ''song,rank'' @ [10], ascii ''a,1'' @ [10], ascii ''b,2'' @ [10], ascii ''c,3'' @ [10]]"
    by (simp add: process_line_def rstrip_newlines_def py_endswith_def ascii_def Let_def
        split del: if_split)
  have h: "(0::nat) < 2 \<and> 2 < length ?ls \<and> ?ls ! 2 = ascii ''b,2'' @ [10] \<and>
      rstrip_newlines (ascii ''b,2'') = ascii ''b,2'' \<and> \<not> py_endswith (ascii ''b,2'') [46, 48]"
    by (simp add: rstrip_newlines_def py_endswith_def ascii_def)
  from processed_lines_local [of ?ls] h
  have "processed_lines ?ls ! 2 = ?ls ! 2" by blast
  moreover have "length (processed_lines ?ls) = 4"
    using processed_lines_local [of ?ls] by simp
  ultimately show ?thesis using v by simp
qed

section \<open>Cells of a row\<close>

lemma length_put_cell [simp]: "length (put_cell cs r c x) = length r"
  by (induction cs r c x rule: put_cell.induct) simp_all


lemma get_cell_replicate [simp]: "get_cell cs (replicate n None) c = None"
proof (induction cs arbitrary: n)
  case Nil
  then show ?case by simp
next
  case (Cons k cs)
  then show ?case by (cases n) simp_all
qed

section \<open>Appending the popularity table\<close>

lemma length_map_row [simp]:
  "length (map_row m tcs pcs prow row) = length row"
  unfolding map_row_def
  by (induction m arbitrary: row) (auto split: prod.splits)



lemma length_new_row [simp]: "length (new_row tcs pcs prow) = length tcs"
  by (simp add: new_row_def)



lemma length_cast_row [simp]: "length (cast_row cast cs r) = length r"
  by (induction cast cs r rule: cast_row.induct) simp_all







section \<open>Merging the artist tables\<close>












lemma merge_artists_numeric_names:
  "base_kinds ''artist_name'' = OtherColumn \<Longrightarrow> ''artist_name'' \<in> set (columns df_base) \<Longrightarrow>
   merge_artists U P base_kinds todo_kinds df_base df_todo = Inl AttributeError"
  by (simp add: merge_artists_def)

section \<open>Operations on tables: facts\<close>


lemma set_cols_set [simp]: "set (cols_set cs c) = insert c (set cs)"
  by (auto simp: cols_set_def)






lemma length_duplicated_from [simp]: "length (duplicated_from seen ks) = length ks"
  by (induction ks arbitrary: seen) simp_all





section \<open>Tracks: deduplication\<close>




lemma first_occurrences_Nil [simp]: "first_occurrences key [] = []"
  by (simp add: first_occurrences_def)





lemmas frame_eval =
  set_column_def drop_columns_def select_columns_def select_rows_def column_def duplicated_def
  wf_frame_def



section \<open>Missing columns\<close>

lemma rows_set_column:
  "length values = length (rows df) \<Longrightarrow> length (rows (set_column c values df)) = length (rows df)"
  by (simp add: set_column_def)

text \<open>
  Claim C6, as amended. When the column \<open>song\<close> or \<open>artist\<close> is missing,
  \<open>charts_cleaning_2.process_charts_csv\<close> writes nothing and returns \<open>None\<close>; so does
  \<open>tracks_cleaning_2.remove_duplicates_and_generate_ids\<close> when its song or artist column
  is missing; \<open>merge_artists\<close> fails with \<open>KeyError\<close> when a table has no column
  \<open>artist_name\<close>. \<open>charts_cleaning_1.process_charts_csv\<close> does not abort: it still writes
  a table with all the rows and the columns of the input other than \<open>last-week\<close>, without
  generating a song id.
\<close>

theorem schema_mismatch:
  "(''song'' \<notin> set (columns df) \<or> ''artist'' \<notin> set (columns df) \<longrightarrow>
      process_charts_csv_charts2 U df = \<lparr> written = None, returned = None \<rparr>) \<and>
   (song_column \<notin> set (columns df) \<or> artist_column \<notin> set (columns df) \<longrightarrow>
      remove_duplicates_and_generate_ids U df song_column artist_column =
        \<lparr> written = None, returned = None \<rparr>) \<and>
   (''artist_name'' \<notin> set (columns df) \<longrightarrow>
      merge_artists U P base_kinds todo_kinds df df_todo = Inl KeyError \<and>
      (\<exists>e. merge_artists U P base_kinds todo_kinds df_base df = Inl e)) \<and>
   (''song'' \<notin> set (columns df) \<or> ''artist'' \<notin> set (columns df) \<longrightarrow>
      (\<exists>out. written (process_charts_csv_charts1 U df) = Some out \<and>
         length (rows out) = length (rows df) \<and>
         set (columns out) = set (columns df) - {''last-week''}))"
proof (intro conjI impI)
  assume "''song'' \<notin> set (columns df) \<or> ''artist'' \<notin> set (columns df)"
  then show "process_charts_csv_charts2 U df = \<lparr> written = None, returned = None \<rparr>"
    by (auto simp: process_charts_csv_charts2_def Let_def drop_columns_def select_columns_def)
next
  assume "song_column \<notin> set (columns df) \<or> artist_column \<notin> set (columns df)"
  then show "remove_duplicates_and_generate_ids U df song_column artist_column =
        \<lparr> written = None, returned = None \<rparr>"
    by (auto simp: remove_duplicates_and_generate_ids_def)
next
  assume "''artist_name'' \<notin> set (columns df)"
  then show "merge_artists U P base_kinds todo_kinds df df_todo = Inl KeyError"
    by (simp add: merge_artists_def)
next
  assume "''artist_name'' \<notin> set (columns df)"
  then show "\<exists>e. merge_artists U P base_kinds todo_kinds df_base df = Inl e"
    by (simp add: merge_artists_def)
next
  assume m: "''song'' \<notin> set (columns df) \<or> ''artist'' \<notin> set (columns df)"
  define df1 where "df1 = (if ''last-week'' \<in> set (columns df) then drop_columns [''last-week''] df else df)"
  define df2 where "df2 = (if ''artist'' \<in> set (columns df1)
                 then set_column ''artist'' (map (clean_artist_name U) (column ''artist'' df1)) df1
                 else df1)"
  define df4 where "df4 = (if ''song_id'' \<in> set (columns df2)
                 then select_columns (''song_id'' # remove1 ''song_id'' (columns df2)) df2
                 else df2)"
  have c1: "set (columns df1) = set (columns df) - {''last-week''}"
    and r1: "length (rows df1) = length (rows df)"
    by (auto simp: df1_def drop_columns_def select_columns_def)
  have c2: "set (columns df2) = set (columns df) - {''last-week''}"
    and r2: "length (rows df2) = length (rows df)"
    using c1 r1 by (auto simp: df2_def set_column_def column_def)
  have c4: "set (columns df4) = set (columns df) - {''last-week''}"
    and r4: "length (rows df4) = length (rows df)"
    using c2 r2 set_remove1_subset [of "''song_id''" "columns df2"]
    by (auto simp: df4_def select_columns_def in_set_remove1)
  have miss: "\<not> (''song'' \<in> set (columns df2) \<and> ''artist'' \<in> set (columns df2))"
    using m c2 by auto
  have df3: "(if ''song'' \<in> set (columns df2) \<and> ''artist'' \<in> set (columns df2) then X else df2) = df2"
    for X
    by (rule if_not_P) (rule miss)
  have w: "written (if C then \<lparr> written = a, returned = b \<rparr> else \<lparr> written = a, returned = c \<rparr>) = a"
    for C and a b c :: "ustr dataframe option"
    by simp
  have "written (process_charts_csv_charts1 U df) = Some df4"
    unfolding process_charts_csv_charts1_def Let_def df1_def [symmetric] df2_def [symmetric] df3
      df4_def [symmetric]
    by (rule w)
  with c4 r4 show "\<exists>out. written (process_charts_csv_charts1 U df) = Some out \<and>
         length (rows out) = length (rows df) \<and>
         set (columns out) = set (columns df) - {''last-week''}"
    by blast
qed

text \<open>
  Claim C6 as stated fails for \<open>charts_cleaning_1.process_charts_csv\<close>: on a table without
  the column \<open>artist\<close> it writes and returns the table without \<open>last-week\<close>, and no song id.
\<close>

theorem schema_mismatch_counterexample:
  "process_charts_csv_charts1 latin1_db charts_no_artist =
     \<lparr> written = Some \<lparr> columns = [''song'', ''rank''],
                        rows = [[Some (ascii ''Hello''), Some (ascii ''1'')],
                                [Some (ascii ''Skyfall''), Some (ascii ''2'')]] \<rparr>,
       returned = Some \<lparr> columns = [''song'', ''rank''],
                         rows = [[Some (ascii ''Hello''), Some (ascii ''1'')],
                                 [Some (ascii ''Skyfall''), Some (ascii ''2'')]] \<rparr> \<rparr>"
  by (simp add: process_charts_csv_charts1_def charts_no_artist_def drop_columns_def
      select_columns_def Let_def)

theorem schema_mismatch_witness:
  "''artist'' \<notin> set (columns charts_no_artist) \<and>
   process_charts_csv_charts2 latin1_db charts_no_artist = \<lparr> written = None, returned = None \<rparr> \<and>
   remove_duplicates_and_generate_ids latin1_db charts_no_artist ''song'' ''artist'' =
     \<lparr> written = None, returned = None \<rparr> \<and>
   merge_artists latin1_db pandas_example artist_kinds artist_kinds charts_no_artist base_example =
     Inl KeyError \<and>
   written (process_charts_csv_charts1 latin1_db charts_no_artist) \<noteq> None"
proof -
  have h: "''artist'' \<notin> set (columns charts_no_artist)" "''artist_name'' \<notin> set (columns charts_no_artist)"
    by (simp_all add: charts_no_artist_def)
  from schema_mismatch [where df = charts_no_artist and U = latin1_db and song_column = "''song''"
      and artist_column = "''artist''" and P = pandas_example and base_kinds = artist_kinds
      and todo_kinds = artist_kinds and df_todo = base_example and df_base = base_example] h
  show ?thesis by auto
qed

end
